theory Spec2Isabelle
  imports Main "HOL-Library.Word" "HOL-Library.Sublist"
begin

unbundle bit_operations_syntax

section \<open>Merged-mining proofs (auxpow.cpp): data\<close>

text \<open>
  A \<open>uint256\<close> is a blob of 32 bytes, here the list of its bytes in memory order
  (\<open>begin ()\<close> to \<open>end ()\<close>). The C++ \<open>int\<close> and \<open>uint32_t\<close> are 32-bit words:
  \<open>sint\<close> reads an \<open>int\<close>, \<open>unat\<close> a \<open>uint32_t\<close>.
\<close>

type_synonym byte = "8 word"
type_synonym bytes = "byte list"
type_synonym uint256 = "byte list"

text \<open>The value of \<open>uint256 ()\<close>: 32 zero bytes.\<close>

definition uint256_null :: uint256 where
  "uint256_null = replicate 32 0"

text \<open>
  Modelled from the spec: \<open>Hash\<close> (hash.h) is not in src. The spec names it
  DoubleSHA256 of the two ranges joined in the order given; the digest itself belongs
  to the external hasher and is the parameter \<open>sha\<close>.
\<close>

definition Hash :: "(bytes \<Rightarrow> uint256) \<Rightarrow> bytes \<Rightarrow> bytes \<Rightarrow> uint256" where
  "Hash sha a b = sha (a @ b)"

section \<open>CAuxPow::CheckMerkleBranch\<close>

text \<open>
  The loop of \<open>CheckMerkleBranch\<close> over the siblings. \<open>nIndex\<close> is an \<open>int\<close>:
  \<open>nIndex & 1\<close> tests its lowest bit and \<open>nIndex >>= 1\<close> is the arithmetic shift.
\<close>

fun CheckMerkleBranch_loop ::
  "(bytes \<Rightarrow> uint256) \<Rightarrow> uint256 \<Rightarrow> uint256 list \<Rightarrow> 32 word \<Rightarrow> uint256" where
  "CheckMerkleBranch_loop sha hash [] nIndex = hash"
| "CheckMerkleBranch_loop sha hash (it # rest) nIndex =
     CheckMerkleBranch_loop sha
       (if nIndex AND 1 \<noteq> 0 then Hash sha it hash else Hash sha hash it)
       rest (signed_drop_bit 1 nIndex)"

definition CheckMerkleBranch ::
  "(bytes \<Rightarrow> uint256) \<Rightarrow> uint256 \<Rightarrow> uint256 list \<Rightarrow> 32 word \<Rightarrow> uint256" where
  "CheckMerkleBranch sha hash vMerkleBranch nIndex =
     (if nIndex = - 1 then uint256_null
      else CheckMerkleBranch_loop sha hash vMerkleBranch nIndex)"

text \<open>
  The fold as the specification words it, on the index read as a signed number (the
  sentinel is \<open>- 1\<close>): one step per sibling, the lowest bit of the current index
  choosing the side of the accumulator, the index halved after each step.
\<close>

definition foldMerkleBranch_step ::
  "(bytes \<Rightarrow> uint256) \<Rightarrow> uint256 \<Rightarrow> uint256 \<times> int \<Rightarrow> uint256 \<times> int" where
  "foldMerkleBranch_step DoubleSHA256 sibling s =
     (if odd (snd s) then DoubleSHA256 (sibling @ fst s) else DoubleSHA256 (fst s @ sibling),
      snd s div 2)"

definition foldMerkleBranch ::
  "(bytes \<Rightarrow> uint256) \<Rightarrow> uint256 \<Rightarrow> uint256 list \<Rightarrow> int \<Rightarrow> uint256" where
  "foldMerkleBranch DoubleSHA256 leaf branch index =
     (if index = - 1 then replicate 32 0
      else fst (fold (foldMerkleBranch_step DoubleSHA256) branch (leaf, index)))"

text \<open>
  The same fold on the index read as an unsigned 32-bit number (the sentinel is
  \<open>0xFFFFFFFF\<close>), with a logical shift.
\<close>

definition foldMerkleBranch_logical_step ::
  "(bytes \<Rightarrow> uint256) \<Rightarrow> uint256 \<Rightarrow> uint256 \<times> 32 word \<Rightarrow> uint256 \<times> 32 word" where
  "foldMerkleBranch_logical_step DoubleSHA256 sibling s =
     (if snd s AND 1 \<noteq> 0 then DoubleSHA256 (sibling @ fst s)
      else DoubleSHA256 (fst s @ sibling),
      drop_bit 1 (snd s))"

definition foldMerkleBranch_logical ::
  "(bytes \<Rightarrow> uint256) \<Rightarrow> uint256 \<Rightarrow> uint256 list \<Rightarrow> 32 word \<Rightarrow> uint256" where
  "foldMerkleBranch_logical DoubleSHA256 leaf branch index =
     (if index = 0xFFFFFFFF then replicate 32 0
      else fst (fold (foldMerkleBranch_logical_step DoubleSHA256) branch (leaf, index)))"

section \<open>CAuxPow::getExpectedIndex\<close>

text \<open>
  \<open>rand\<close> is a \<open>uint32_t\<close>, so every step wraps at \<open>2 ^ 32\<close>; \<open>rand += nChainId\<close>
  converts the \<open>int\<close> to \<open>uint32_t\<close>, which keeps its bits. \<open>1u << h\<close> is undefined
  in C++ from \<open>h = 32\<close> on: the model returns \<open>None\<close> there. The result is returned
  as an \<open>int\<close> with the same bits.
\<close>

definition getExpectedIndex :: "32 word \<Rightarrow> 32 word \<Rightarrow> nat \<Rightarrow> 32 word option" where
  "getExpectedIndex nNonce nChainId h =
     (let rand = nNonce;
          rand = rand * 1103515245 + 12345;
          rand = rand + nChainId;
          rand = rand * 1103515245 + 12345
      in if h < 32 then Some (rand mod push_bit h 1) else None)"

text \<open>
  The slot as the specification computes it, on unbounded numbers with every reduction
  modulo \<open>2 ^ 32\<close> written out; \<open>chainId\<close> is a signed number.
\<close>

definition expectedIndex :: "nat \<Rightarrow> int \<Rightarrow> nat \<Rightarrow> int" where
  "expectedIndex nonce chainId height =
     (let r = int nonce;
          r = (r * 1103515245 + 12345) mod 2 ^ 32;
          r = (r + chainId) mod 2 ^ 32;
          r = (r * 1103515245 + 12345) mod 2 ^ 32
      in r mod 2 ^ height)"

section \<open>The objects CAuxPow::check reads\<close>

text \<open>
  Of a transaction the two functions touch the inputs' \<open>scriptSig\<close> and, through the
  hasher, its hash. A stake transaction (\<open>CPOSTransaction\<close>) has the same inputs and
  outputs and is hashed by a function of its own.
\<close>

record CTxIn =
  prevout_hash :: uint256
  prevout_n :: "32 word"
  scriptSig :: bytes

record CTransaction =
  vin :: "CTxIn list"
  vout :: "bytes list"

text \<open>\<open>CMerkleTx\<close> and \<open>CPOSMerkleTx\<close> (\<open>CBaseMerkleTx\<close> with the transaction).\<close>

record CMerkleTx =
  tx :: CTransaction
  hashBlock :: uint256
  vMerkleBranch :: "uint256 list"
  nIndex :: "32 word"

text \<open>
  A parent block header, \<open>CDefaultBlockHeader\<close> or \<open>CEquihashBlockHeader\<close>: its
  version (\<open>nVersion\<close> in the source) and \<open>hashMerkleRoot\<close> are the members this file
  writes or reads.
\<close>

record CPureBlockHeader =
  parent_nVersion :: "32 word"
  hashMerkleRoot :: uint256

record CAuxPow =
  nVersion :: "32 word"
  coinbaseTx :: CMerkleTx
  coinbasePOSTx :: CMerkleTx
  vChainMerkleBranch :: "uint256 list"
  nChainIndex :: "32 word"
  defaultparentBlock :: CPureBlockHeader
  equihashparentBlock :: CPureBlockHeader
  strZhashConfig :: string

text \<open>\<open>Consensus::Params\<close>: \<open>check\<close> reads \<open>fStrictChainId\<close> only.\<close>

record Params =
  fStrictChainId :: bool

text \<open>
  What auxpow.cpp takes from the rest of the repository and src does not hold: the
  digest, the transaction hashes, the chain id encoded in a parent header, the Merkle
  root of a block's transaction hashes, the three version flags of auxpow.h and the
  configured Zhash personalization string. They are parameters of the model.
\<close>

record extern =
  sha256d :: "bytes \<Rightarrow> uint256"
  TxGetHash :: "CTransaction \<Rightarrow> uint256"
  POSTxGetHash :: "CTransaction \<Rightarrow> uint256"
  GetChainId :: "CPureBlockHeader \<Rightarrow> 32 word"
  ComputeMerkleRoot :: "uint256 list \<Rightarrow> uint256"
  AUXPOW_EQUIHASH_FLAG :: "32 word"
  AUXPOW_ZHASH_FLAG :: "32 word"
  AUXPOW_STAKE_FLAG :: "32 word"
  strZhashPersonalize :: string

text \<open>
  Modelled from the spec: \<open>pchMergedMiningHeader\<close> (auxpow.h) is not in src; the spec
  gives the merged-mining magic as the four bytes \<open>0xFA 0xBE 'm' 'm'\<close>.
\<close>

definition pchMergedMiningHeader :: bytes where
  "pchMergedMiningHeader = [0xFA, 0xBE, 0x6D, 0x6D]"

definition isAuxPowEquihash :: "extern \<Rightarrow> CAuxPow \<Rightarrow> bool" where
  "isAuxPowEquihash x a = (nVersion a AND AUXPOW_EQUIHASH_FLAG x \<noteq> 0)"

definition isAuxPowZhash :: "extern \<Rightarrow> CAuxPow \<Rightarrow> bool" where
  "isAuxPowZhash x a = (nVersion a AND AUXPOW_ZHASH_FLAG x \<noteq> 0)"

definition isAuxPowPOS :: "extern \<Rightarrow> CAuxPow \<Rightarrow> bool" where
  "isAuxPowPOS x a = (nVersion a AND AUXPOW_STAKE_FLAG x \<noteq> 0)"

text \<open>
  \<open>std::search\<close> over a byte range, as the offset of the iterator it returns: the
  start of the first occurrence of \<open>pat\<close>, or the length of the range (its end) when
  there is none.
\<close>

fun search :: "'a list \<Rightarrow> 'a list \<Rightarrow> nat" where
  "search [] pat = 0"
| "search (c # cs) pat = (if prefix pat (c # cs) then 0 else Suc (search cs pat))"

text \<open>\<open>memcpy\<close> of four bytes into a \<open>uint32_t\<close>, then \<open>le32toh\<close>.\<close>

fun le32 :: "bytes \<Rightarrow> 32 word" where
  "le32 [] = 0"
| "le32 (b # bs) = ucast b OR push_bit 8 (le32 bs)"

section \<open>CAuxPow::check\<close>

text \<open>
  One constructor for each \<open>return error (...)\<close> of \<open>check\<close>, in the order of the
  source; \<open>reason\<close> is the message logged.
\<close>

datatype check_error =
    NotGenerate
  | ParentHasOurChainId
  | ChainMerkleBranchTooLong
  | ZhashConfigWrongSize
  | MerkleRootIncorrect
  | MissingChainMerkleRoot
  | MultipleMergedMiningHeaders
  | HeaderNotJustBeforeRoot
  | RootNotInFirst20Bytes
  | MissingSizeAndNonce
  | BranchSizeMismatch
  | WrongIndex

fun reason :: "check_error \<Rightarrow> string" where
  "reason NotGenerate = ''AuxPow is not a generate''"
| "reason ParentHasOurChainId = ''Aux POW parent has our chain ID''"
| "reason ChainMerkleBranchTooLong = ''Aux POW chain merkle branch too long''"
| "reason ZhashConfigWrongSize = ''Aux POW Zhash personalization string size has wrong size.''"
| "reason MerkleRootIncorrect = ''Aux POW merkle root incorrect''"
| "reason MissingChainMerkleRoot = ''Aux POW missing chain merkle root in parent coinbase''"
| "reason MultipleMergedMiningHeaders = ''Multiple merged mining headers in coinbase''"
| "reason HeaderNotJustBeforeRoot = ''Merged mining header is not just before chain merkle root''"
| "reason RootNotInFirst20Bytes =
     ''Aux POW chain merkle root must start in the first 20 bytes of the parent coinbase''"
| "reason MissingSizeAndNonce =
     ''Aux POW missing chain merkle tree size and nonce in parent coinbase''"
| "reason BranchSizeMismatch = ''Aux POW merkle branch size does not match parent coinbase''"
| "reason WrongIndex = ''Aux POW wrong index''"

text \<open>
  The result of \<open>check\<close>: \<open>Valid\<close> is \<open>true\<close>, \<open>Invalid e\<close> is \<open>error (reason e)\<close>,
  that is \<open>false\<close>. \<open>Undefined\<close> stands for the one place where the C++ has no
  defined result: \<open>tx->vin[0]\<close> on a coinbase without inputs.
\<close>

datatype check_result = Valid | Invalid check_error | Undefined

text \<open>
  The iterators into \<open>script\<close> are offsets from \<open>script.begin ()\<close>, so that
  \<open>script.end ()\<close> is \<open>length script\<close>. Where \<open>getExpectedIndex\<close> is called the
  chain branch has at most 30 siblings, so the shift in it is defined and it returns
  \<open>Some\<close> index, which is compared with \<open>nChainIndex\<close>.
\<close>

definition check ::
  "extern \<Rightarrow> CAuxPow \<Rightarrow> uint256 \<Rightarrow> 32 word \<Rightarrow> Params \<Rightarrow> check_result" where
  "check x a hashAuxBlock nChainId params =
    (let fSameChainId =
           (if isAuxPowEquihash x a then GetChainId x (equihashparentBlock a) = nChainId
            else GetChainId x (defaultparentBlock a) = nChainId);
         nIndex' = (if isAuxPowPOS x a then nIndex (coinbasePOSTx a) else nIndex (coinbaseTx a))
     in
     if nIndex' \<noteq> 0 then Invalid NotGenerate
     else if fStrictChainId params \<and> fSameChainId then Invalid ParentHasOurChainId
     else if length (vChainMerkleBranch a) > 30 then Invalid ChainMerkleBranchTooLong
     else if isAuxPowZhash x a \<and> length (strZhashConfig a) \<noteq> 8 then Invalid ZhashConfigWrongSize
     else
      let nRootHash =
            CheckMerkleBranch (sha256d x) hashAuxBlock (vChainMerkleBranch a) (nChainIndex a);
          vchRootHash = rev nRootHash;
          blockMerkleRoot =
            (if isAuxPowEquihash x a then hashMerkleRoot (equihashparentBlock a)
             else hashMerkleRoot (defaultparentBlock a));
          vMerkleBranch' =
            (if isAuxPowPOS x a then vMerkleBranch (coinbasePOSTx a)
             else vMerkleBranch (coinbaseTx a));
          coinbaseTxHash =
            (if isAuxPowPOS x a then POSTxGetHash x (tx (coinbasePOSTx a))
             else TxGetHash x (tx (coinbaseTx a)))
      in
      if CheckMerkleBranch (sha256d x) coinbaseTxHash vMerkleBranch' nIndex' \<noteq> blockMerkleRoot
      then Invalid MerkleRootIncorrect
      else
       case (if isAuxPowPOS x a then vin (tx (coinbasePOSTx a)) else vin (tx (coinbaseTx a))) of
         [] \<Rightarrow> Undefined
       | vin0 # _ \<Rightarrow>
          let script = scriptSig vin0;
              pcHead = search script pchMergedMiningHeader;
              pc = search script vchRootHash
          in
          if pc = length script then Invalid MissingChainMerkleRoot
          else if pcHead \<noteq> length script \<and>
                  search (drop (pcHead + 1) script) pchMergedMiningHeader
                    \<noteq> length (drop (pcHead + 1) script)
          then Invalid MultipleMergedMiningHeaders
          else if pcHead \<noteq> length script \<and> pcHead + length pchMergedMiningHeader \<noteq> pc
          then Invalid HeaderNotJustBeforeRoot
          else if pcHead = length script \<and> pc > 20 then Invalid RootNotInFirst20Bytes
          else
           let pc = pc + length vchRootHash in
           if int (length script) - int pc < 8 then Invalid MissingSizeAndNonce
           else
            let nSize = le32 (take 4 (drop pc script));
                merkleHeight = length (vChainMerkleBranch a)
            in
            if nSize \<noteq> push_bit merkleHeight 1 then Invalid BranchSizeMismatch
            else
             let nNonce = le32 (take 4 (drop (pc + 4) script)) in
             if Some (nChainIndex a) \<noteq> getExpectedIndex nNonce nChainId merkleHeight
             then Invalid WrongIndex
             else Valid)"

section \<open>CAuxPow::initAuxPow\<close>

text \<open>
  The child header is a \<open>CBlockHeader\<close>, whose class is not in src: its type is left
  open, and the three methods \<open>initAuxPow\<close> calls on it are parameters.
  \<open>GetAlgo\<close> is compared with \<open>ALGO_EQUIHASH\<close> and \<open>ALGO_ZHASH\<close> only; every other
  algorithm is \<open>ALGO_OTHER\<close>.
\<close>

datatype algo = ALGO_EQUIHASH | ALGO_ZHASH | ALGO_OTHER

record 'hdr header_ops =
  SetAuxpowVersion :: "'hdr \<Rightarrow> bool \<Rightarrow> 'hdr"
  GetAlgo :: "'hdr \<Rightarrow> algo"
  GetHash :: "'hdr \<Rightarrow> uint256"

text \<open>
  Modelled from the spec: \<open>CScript::operator<<\<close> on a byte vector (script.h) is not in
  src; the spec has the payload pushdata-encoded. The encoding is the length as one
  opcode byte below 76 (\<open>OP_PUSHDATA1\<close>), else the opcode 76, 77 or 78 followed by the
  length in 1, 2 or 4 little-endian bytes, then the data.
\<close>

definition CScript_push :: "bytes \<Rightarrow> bytes" where
  "CScript_push b =
     (let n = length b in
      (if n < 76 then [of_nat n]
       else if n \<le> 255 then [76, of_nat n]
       else if n \<le> 65535 then [77, of_nat n, of_nat (n div 256)]
       else [78, of_nat n, of_nat (n div 256), of_nat (n div 65536), of_nat (n div 16777216)])
      @ b)"

text \<open>
  Modelled from the spec: the constructors of \<open>CAuxPow\<close>, \<open>CMerkleTx\<close> and the block
  headers (auxpow.h, primitives) are not in src. A new \<open>CAuxPow\<close> holds the coinbase it
  is given; the spec has \<open>zhashConfig\<close> present only with the Zhash flag, and every
  other member is as C++ default construction leaves it: empty vectors and strings,
  null hashes and headers, and no position (\<open>- 1\<close>) for a Merkle transaction.
\<close>

definition CTransaction_empty :: CTransaction where
  "CTransaction_empty = \<lparr>vin = [], vout = []\<rparr>"

definition CMerkleTx_new :: "CTransaction \<Rightarrow> CMerkleTx" where
  "CMerkleTx_new t = \<lparr>tx = t, hashBlock = uint256_null, vMerkleBranch = [], nIndex = - 1\<rparr>"

definition CPureBlockHeader_null :: CPureBlockHeader where
  "CPureBlockHeader_null = \<lparr>parent_nVersion = 0, hashMerkleRoot = uint256_null\<rparr>"

definition CAuxPow_new :: "CTransaction \<Rightarrow> CAuxPow" where
  "CAuxPow_new coinbaseRef =
     \<lparr>nVersion = 0,
      coinbaseTx = CMerkleTx_new coinbaseRef,
      coinbasePOSTx = CMerkleTx_new CTransaction_empty,
      vChainMerkleBranch = [],
      nChainIndex = 0,
      defaultparentBlock = CPureBlockHeader_null,
      equihashparentBlock = CPureBlockHeader_null,
      strZhashConfig = []\<rparr>"

definition CAuxPow_new_POS :: "CTransaction \<Rightarrow> CAuxPow" where
  "CAuxPow_new_POS coinbaseRef =
     \<lparr>nVersion = 0,
      coinbaseTx = CMerkleTx_new CTransaction_empty,
      coinbasePOSTx = CMerkleTx_new coinbaseRef,
      vChainMerkleBranch = [],
      nChainIndex = 0,
      defaultparentBlock = CPureBlockHeader_null,
      equihashparentBlock = CPureBlockHeader_null,
      strZhashConfig = []\<rparr>"

text \<open>An \<open>assert\<close> that fails aborts the program.\<close>

datatype init_error = AssertionFailed

text \<open>
  The two steps every block of \<open>initAuxPow\<close> starts with: the minimal coinbase script
  input (the reversed block hash, then the byte 1 and seven zero bytes), and the fake
  parent coinbase with that one input (null \<open>prevout\<close>) and no outputs.
\<close>

definition minimal_inputData :: "uint256 \<Rightarrow> bytes" where
  "minimal_inputData blockHash = rev blockHash @ [1] @ replicate 7 0"

definition fake_coinbase :: "bytes \<Rightarrow> CTransaction" where
  "fake_coinbase inputData =
     \<lparr>vin = [\<lparr>prevout_hash = uint256_null, prevout_n = - 1,
               scriptSig = CScript_push inputData\<rparr>],
      vout = []\<rparr>"

text \<open>
  The four blocks of \<open>initAuxPow\<close>, in the order of the source. The parent block holds
  the coinbase alone, so its Merkle root is computed from that one transaction hash.
\<close>

definition initAuxPow_equihash_stake :: "extern \<Rightarrow> uint256 \<Rightarrow> 32 word \<Rightarrow> init_error + CAuxPow" where
  "initAuxPow_equihash_stake x blockHash nAuxPowVersion =
    (let inputData = minimal_inputData blockHash;
         coinbase = fake_coinbase inputData
     in
     if vout coinbase \<noteq> [] then Inl AssertionFailed
     else
      let equihashblock =
            \<lparr>parent_nVersion = 1,
             hashMerkleRoot = ComputeMerkleRoot x [POSTxGetHash x coinbase]\<rparr>;
          auxpow = (CAuxPow_new_POS coinbase)\<lparr>nVersion := nAuxPowVersion\<rparr>
      in
      if vChainMerkleBranch auxpow \<noteq> [] then Inl AssertionFailed
      else
       let auxpow = auxpow\<lparr>nChainIndex := 0\<rparr> in
       if vMerkleBranch (coinbasePOSTx auxpow) \<noteq> [] then Inl AssertionFailed
       else
        let auxpow = auxpow\<lparr>coinbasePOSTx := (coinbasePOSTx auxpow)\<lparr>nIndex := 0\<rparr>\<rparr>;
            auxpow = auxpow\<lparr>equihashparentBlock := equihashblock\<rparr>
        in
        if nAuxPowVersion AND AUXPOW_ZHASH_FLAG x \<noteq> 0 then
          if length (strZhashPersonalize x) \<noteq> 8 then Inl AssertionFailed
          else Inr (auxpow\<lparr>strZhashConfig := strZhashPersonalize x\<rparr>)
        else Inr auxpow)"

definition initAuxPow_equihash :: "extern \<Rightarrow> uint256 \<Rightarrow> 32 word \<Rightarrow> init_error + CAuxPow" where
  "initAuxPow_equihash x blockHash nAuxPowVersion =
    (let inputData = minimal_inputData blockHash;
         coinbase = fake_coinbase inputData
     in
     if vout coinbase \<noteq> [] then Inl AssertionFailed
     else
      let parent =
            \<lparr>parent_nVersion = 1,
             hashMerkleRoot = ComputeMerkleRoot x [TxGetHash x coinbase]\<rparr>;
          auxpow = (CAuxPow_new coinbase)\<lparr>nVersion := nAuxPowVersion\<rparr>
      in
      if vChainMerkleBranch auxpow \<noteq> [] then Inl AssertionFailed
      else
       let auxpow = auxpow\<lparr>nChainIndex := 0\<rparr> in
       if vMerkleBranch (coinbaseTx auxpow) \<noteq> [] then Inl AssertionFailed
       else
        let auxpow = auxpow\<lparr>coinbaseTx := (coinbaseTx auxpow)\<lparr>nIndex := 0\<rparr>\<rparr>;
            auxpow = auxpow\<lparr>equihashparentBlock := parent\<rparr>
        in
        if nAuxPowVersion AND AUXPOW_ZHASH_FLAG x \<noteq> 0 then
          if length (strZhashPersonalize x) \<noteq> 8 then Inl AssertionFailed
          else Inr (auxpow\<lparr>strZhashConfig := strZhashPersonalize x\<rparr>)
        else Inr auxpow)"

definition initAuxPow_default_stake :: "extern \<Rightarrow> uint256 \<Rightarrow> 32 word \<Rightarrow> init_error + CAuxPow" where
  "initAuxPow_default_stake x blockHash nAuxPowVersion =
    (let inputData = minimal_inputData blockHash;
         coinbase = fake_coinbase inputData
     in
     if vout coinbase \<noteq> [] then Inl AssertionFailed
     else
      let defaultblock =
            \<lparr>parent_nVersion = 1,
             hashMerkleRoot = ComputeMerkleRoot x [POSTxGetHash x coinbase]\<rparr>;
          auxpow = (CAuxPow_new_POS coinbase)\<lparr>nVersion := nAuxPowVersion\<rparr>
      in
      if vChainMerkleBranch auxpow \<noteq> [] then Inl AssertionFailed
      else
       let auxpow = auxpow\<lparr>nChainIndex := 0\<rparr> in
       if vMerkleBranch (coinbasePOSTx auxpow) \<noteq> [] then Inl AssertionFailed
       else
        let auxpow = auxpow\<lparr>coinbasePOSTx := (coinbasePOSTx auxpow)\<lparr>nIndex := 0\<rparr>\<rparr>
        in Inr (auxpow\<lparr>defaultparentBlock := defaultblock\<rparr>))"

definition initAuxPow_default :: "extern \<Rightarrow> uint256 \<Rightarrow> 32 word \<Rightarrow> init_error + CAuxPow" where
  "initAuxPow_default x blockHash nAuxPowVersion =
    (let inputData = minimal_inputData blockHash;
         coinbase = fake_coinbase inputData
     in
     if vout coinbase \<noteq> [] then Inl AssertionFailed
     else
      let parent =
            \<lparr>parent_nVersion = 1,
             hashMerkleRoot = ComputeMerkleRoot x [TxGetHash x coinbase]\<rparr>;
          auxpow = (CAuxPow_new coinbase)\<lparr>nVersion := nAuxPowVersion\<rparr>
      in
      if vChainMerkleBranch auxpow \<noteq> [] then Inl AssertionFailed
      else
       let auxpow = auxpow\<lparr>nChainIndex := 0\<rparr> in
       if vMerkleBranch (coinbaseTx auxpow) \<noteq> [] then Inl AssertionFailed
       else
        let auxpow = auxpow\<lparr>coinbaseTx := (coinbaseTx auxpow)\<lparr>nIndex := 0\<rparr>\<rparr>
        in Inr (auxpow\<lparr>defaultparentBlock := parent\<rparr>))"

text \<open>
  \<open>initAuxPow\<close> changes the header in place and attaches the new object to it; the
  model returns the header with the auxpow version flag set, and the object. The block
  hash is taken after the flag is set.
\<close>

definition initAuxPow ::
  "extern \<Rightarrow> 'hdr header_ops \<Rightarrow> 'hdr \<Rightarrow> 32 word \<Rightarrow> init_error + ('hdr \<times> CAuxPow)" where
  "initAuxPow x ops header0 nAuxPowVersion =
    (let header = SetAuxpowVersion ops header0 True;
         built =
           (if (GetAlgo ops header = ALGO_EQUIHASH \<or> GetAlgo ops header = ALGO_ZHASH) \<and>
               (nAuxPowVersion AND AUXPOW_EQUIHASH_FLAG x \<noteq> 0 \<or>
                nAuxPowVersion AND AUXPOW_ZHASH_FLAG x \<noteq> 0)
            then
              if nAuxPowVersion AND AUXPOW_STAKE_FLAG x \<noteq> 0
              then initAuxPow_equihash_stake x (GetHash ops header) nAuxPowVersion
              else initAuxPow_equihash x (GetHash ops header) nAuxPowVersion
            else
              if nAuxPowVersion AND AUXPOW_STAKE_FLAG x \<noteq> 0
              then initAuxPow_default_stake x (GetHash ops header) nAuxPowVersion
              else initAuxPow_default x (GetHash ops header) nAuxPowVersion)
     in case built of Inl e \<Rightarrow> Inl e | Inr auxpow \<Rightarrow> Inr (header, auxpow))"

text \<open>
  The round trip: \<open>initAuxPow\<close> on a header, then \<open>check\<close> of the attached object
  against the hash of that header.
\<close>

definition initAuxPow_then_check ::
  "extern \<Rightarrow> 'hdr header_ops \<Rightarrow> 'hdr \<Rightarrow> 32 word \<Rightarrow> 32 word \<Rightarrow> Params
     \<Rightarrow> init_error + check_result" where
  "initAuxPow_then_check x ops header0 nAuxPowVersion nChainId params =
     (case initAuxPow x ops header0 nAuxPowVersion of
        Inl e \<Rightarrow> Inl e
      | Inr (header, auxpow) \<Rightarrow> Inr (check x auxpow (GetHash ops header) nChainId params))"

section \<open>The members check selects, and example values\<close>

text \<open>
  \<open>check\<close> picks the parent header by the Equihash flag and the coinbase proof by the
  stake flag, each time it reads one of their members. The three selections, named for
  the statements below.
\<close>

definition selected_parent :: "extern \<Rightarrow> CAuxPow \<Rightarrow> CPureBlockHeader" where
  "selected_parent x a =
     (if isAuxPowEquihash x a then equihashparentBlock a else defaultparentBlock a)"

definition selected_coinbase :: "extern \<Rightarrow> CAuxPow \<Rightarrow> CMerkleTx" where
  "selected_coinbase x a = (if isAuxPowPOS x a then coinbasePOSTx a else coinbaseTx a)"

definition selected_coinbase_hash :: "extern \<Rightarrow> CAuxPow \<Rightarrow> uint256" where
  "selected_coinbase_hash x a =
     (if isAuxPowPOS x a then POSTxGetHash x (tx (coinbasePOSTx a))
      else TxGetHash x (tx (coinbaseTx a)))"

text \<open>
  What the four blocks of \<open>initAuxPow\<close> have in common in the object they build for a
  block hash \<open>h\<close>, as far as \<open>check\<close> reads it.
\<close>

definition minimal_auxpow :: "extern \<Rightarrow> CAuxPow \<Rightarrow> uint256 \<Rightarrow> bool" where
  "minimal_auxpow x a h =
     (nIndex (selected_coinbase x a) = 0 \<and> vChainMerkleBranch a = [] \<and> nChainIndex a = 0 \<and>
      (isAuxPowZhash x a \<longrightarrow> length (strZhashConfig a) = 8) \<and>
      vMerkleBranch (selected_coinbase x a) = [] \<and>
      hashMerkleRoot (selected_parent x a) = selected_coinbase_hash x a \<and>
      map scriptSig (vin (tx (selected_coinbase x a))) = [CScript_push (minimal_inputData h)])"

text \<open>
  An instance of the external parts, to run the functions on concrete inputs. The
  digests are stand-ins (the first 32 bytes of the input, padded), not SHA-256; the
  chain id is the upper 16 bits of the parent version, as the specification has it; the
  Merkle root of a single leaf is the leaf; the flags are the bits 1, 2 and 4.
\<close>

definition example_extern :: extern where
  "example_extern =
     \<lparr>sha256d = (\<lambda>b. take 32 (b @ replicate 32 0)),
      TxGetHash = (\<lambda>t. take 32 (concat (map scriptSig (vin t)) @ replicate 32 0)),
      POSTxGetHash = (\<lambda>t. take 32 (concat (map scriptSig (vin t)) @ replicate 32 1)),
      GetChainId = (\<lambda>b. drop_bit 16 (parent_nVersion b)),
      ComputeMerkleRoot = (\<lambda>leaves. case leaves of [t] \<Rightarrow> t | _ \<Rightarrow> uint256_null),
      AUXPOW_EQUIHASH_FLAG = 1,
      AUXPOW_ZHASH_FLAG = 2,
      AUXPOW_STAKE_FLAG = 4,
      strZhashPersonalize = ''ZcashPoW''\<rparr>"

text \<open>An example child header: its algorithm and its hash, and nothing else.\<close>

definition example_ops :: "(algo \<times> uint256) header_ops" where
  "example_ops = \<lparr>SetAuxpowVersion = (\<lambda>h b. h), GetAlgo = fst, GetHash = snd\<rparr>"

definition example_hash :: uint256 where
  "example_hash = replicate 32 17"

text \<open>
  An example object with version 0 around a given coinbase script: a default parent
  with chain id 1 whose Merkle root is the hash of the coinbase, an empty chain branch
  and chain index 0.
\<close>

definition example_auxpow :: "bytes \<Rightarrow> CAuxPow" where
  "example_auxpow script =
     (let coinbase =
            \<lparr>vin = [\<lparr>prevout_hash = uint256_null, prevout_n = - 1, scriptSig = script\<rparr>],
             vout = []\<rparr>
      in \<lparr>nVersion = 0,
          coinbaseTx = \<lparr>tx = coinbase, hashBlock = uint256_null, vMerkleBranch = [], nIndex = 0\<rparr>,
          coinbasePOSTx = CMerkleTx_new CTransaction_empty,
          vChainMerkleBranch = [],
          nChainIndex = 0,
          defaultparentBlock =
            \<lparr>parent_nVersion = 0x10001, hashMerkleRoot = TxGetHash example_extern coinbase\<rparr>,
          equihashparentBlock = CPureBlockHeader_null,
          strZhashConfig = []\<rparr>)"

text \<open>
  The script \<open>initAuxPow\<close> builds for \<open>example_hash\<close>, and a script with the chain
  Merkle root behind a merged-mining header and a second header at its end.
\<close>

definition example_script :: bytes where
  "example_script = 40 # rev example_hash @ [1, 0, 0, 0, 0, 0, 0, 0]"

definition example_script_two_headers :: bytes where
  "example_script_two_headers =
     replicate 50 0 @ pchMergedMiningHeader @ rev example_hash @ [1, 0, 0, 0, 0, 0, 0, 0]
       @ pchMergedMiningHeader"

section \<open>The Merkle fold\<close>

lemma and_1_iff_odd_sint: "((i :: 32 word) AND 1 \<noteq> 0) = odd (sint i)"
proof -
  have "bit (sint i) 0 = bit i 0" by (simp add: bit_sint_iff)
  then have "even i = even (sint i)" by (simp add: bit_0)
  then show ?thesis by (simp add: and_one_eq mod_2_eq_odd)
qed

lemma CheckMerkleBranch_loop_fold:
  "CheckMerkleBranch_loop sha hash branch i =
     fst (fold (foldMerkleBranch_step sha) branch (hash, sint i))"
proof (induction branch arbitrary: hash i)
  case Nil
  show ?case by simp
next
  case (Cons s branch)
  have half: "sint (signed_drop_bit (Suc 0) i) = sint i div 2"
    by (simp add: sint_signed_drop_bit_eq drop_bit_eq_div)
  show ?case
    by (simp add: Cons.IH foldMerkleBranch_step_def Hash_def and_1_iff_odd_sint half)
qed

text \<open>
  C9. Folding a hash over the empty branch with index 0 returns the hash unchanged:
  \<open>foldMerkleBranch (x, [], 0) = x\<close>.
\<close>

theorem CheckMerkleBranch_empty: "CheckMerkleBranch sha x [] 0 = x"
  by (simp add: CheckMerkleBranch_def)

text \<open>
  C4. \<open>CheckMerkleBranch\<close> is the fold of the specification, for every leaf, branch and
  index: the zero hash for the sentinel index \<open>- 1\<close> (the word \<open>0xFFFFFFFF\<close>), and
  otherwise one step per sibling in order, hashing sibling then accumulator when bit 0
  of the current index is 1 and accumulator then sibling when it is 0, the index
  shifted right by one after each step. The index is the signed \<open>int\<close> of the source,
  so the shift halves it rounding down.
\<close>

theorem CheckMerkleBranch_eq_fold:
  "CheckMerkleBranch sha leaf branch index = foldMerkleBranch sha leaf branch (sint index)"
proof (cases "index = - 1")
  case True
  then show ?thesis
    by (simp add: CheckMerkleBranch_def foldMerkleBranch_def uint256_null_def)
next
  case False
  then have "sint index \<noteq> - 1"
    by (metis signed_minus_1 signed_word_eqI)
  with False show ?thesis
    by (simp add: CheckMerkleBranch_def foldMerkleBranch_def CheckMerkleBranch_loop_fold)
qed

text \<open>
  Read with an unsigned index and a logical shift, the fold is the same as long as the
  two shifts see the same bits: for a branch of at most 32 siblings, and for every
  branch when bit 31 of the index is clear. \<open>check\<close> calls \<open>CheckMerkleBranch\<close> with a
  chain branch of at most 30 siblings, and with index 0 for the coinbase branch.
\<close>

lemma CheckMerkleBranch_loop_logical_bits:
  fixes a l :: "32 word"
  assumes "\<forall>n<m. bit a n = bit l n" and "length branch \<le> m" and "m \<le> 32"
  shows "CheckMerkleBranch_loop sha hash branch a =
           fst (fold (foldMerkleBranch_logical_step sha) branch (hash, l))"
  using assms
proof (induction branch arbitrary: hash a l m)
  case Nil
  show ?case by simp
next
  case (Cons s branch)
  then obtain k where m: "m = Suc k" by (cases m) auto
  from Cons.prems m have b0: "bit a 0 = bit l 0" by simp
  have odd_eq: "(a AND 1 \<noteq> 0) = (l AND 1 \<noteq> 0)"
    using b0 by (simp add: and_one_eq bit_0 mod_2_eq_odd)
  have next_bits: "\<forall>n<k. bit (signed_drop_bit 1 a) n = bit (drop_bit 1 l) n"
  proof (intro allI impI)
    fix n assume n: "n < k"
    with Cons.prems m have "n + 1 < 32" "bit a (n + 1) = bit l (n + 1)" by auto
    then show "bit (signed_drop_bit 1 a) n = bit (drop_bit 1 l) n"
      by (simp add: bit_signed_drop_bit_iff bit_drop_bit_eq)
  qed
  from Cons.prems m have len: "length branch \<le> k" "k \<le> 32" by simp_all
  from Cons.IH [OF next_bits len]
  show ?case by (simp add: odd_eq Hash_def foldMerkleBranch_logical_step_def)
qed

lemma CheckMerkleBranch_loop_logical_nonneg:
  fixes i :: "32 word"
  assumes "\<not> bit i 31"
  shows "CheckMerkleBranch_loop sha hash branch i =
           fst (fold (foldMerkleBranch_logical_step sha) branch (hash, i))"
  using assms
proof (induction branch arbitrary: hash i)
  case Nil
  show ?case by simp
next
  case (Cons s branch)
  have eq: "signed_drop_bit (Suc 0) i = drop_bit (Suc 0) i"
    using Cons.prems
    by (intro bit_word_eqI)
       (auto simp: bit_signed_drop_bit_iff bit_drop_bit_eq dest: bit_imp_le_length)
  have "\<not> bit (drop_bit (Suc 0) i) 31"
    by (auto simp: bit_drop_bit_eq dest: bit_imp_le_length)
  with Cons.IH [of "drop_bit (Suc 0) i"] show ?case
    by (simp add: eq Hash_def foldMerkleBranch_logical_step_def)
qed

lemma CheckMerkleBranch_logical_shift_agrees:
  assumes "length branch \<le> 32 \<or> \<not> bit index 31"
  shows "CheckMerkleBranch sha leaf branch index = foldMerkleBranch_logical sha leaf branch index"
proof (cases "length branch \<le> 32")
  case True
  then have "CheckMerkleBranch_loop sha leaf branch index =
               fst (fold (foldMerkleBranch_logical_step sha) branch (leaf, index))"
    by (intro CheckMerkleBranch_loop_logical_bits [where m = 32]) simp_all
  then show ?thesis
    by (simp add: CheckMerkleBranch_def foldMerkleBranch_logical_def uint256_null_def)
next
  case False
  with assms have "\<not> bit index 31" by simp
  then show ?thesis
    by (simp add: CheckMerkleBranch_def foldMerkleBranch_logical_def uint256_null_def
          CheckMerkleBranch_loop_logical_nonneg)
qed

text \<open>
  Beyond that the two differ, since the shift of the source keeps the sign of the
  index. From index \<open>- 2\<close> every step after the first finds bit 0 set, the 33rd
  included, where the logical shift has run out of bits. The digest here is the
  identity, to show the order of each step.
\<close>

lemma CheckMerkleBranch_shift_keeps_sign:
  "CheckMerkleBranch (\<lambda>b. b) [1] (map (\<lambda>i. [of_nat i]) [2..<35]) (- 2) =
     rev (map of_nat [3..<35]) @ [1, 2] \<and>
   foldMerkleBranch_logical (\<lambda>b. b) [1] (map (\<lambda>i. [of_nat i]) [2..<35]) (- 2) =
     rev (map of_nat [3..<34]) @ [1, 2, 34]"
  by code_simp

section \<open>The deterministic index\<close>

lemma uint_lcg_step:
  "uint ((r :: 32 word) * 1103515245 + 12345) = (uint r * 1103515245 + 12345) mod 2 ^ 32"
  by (simp add: uint_word_ariths mod_simps)

lemma uint_add_signed:
  "uint ((r :: 32 word) + c) = (uint r + sint c) mod 2 ^ 32"
proof -
  have "sint c mod 2 ^ 32 = uint c"
    using uint_sint [of c] by (simp add: take_bit_eq_mod)
  then have "uint (r + c) = (uint r + sint c mod 2 ^ 32) mod 2 ^ 32"
    by (simp add: uint_word_ariths)
  then show ?thesis by (simp add: mod_simps)
qed

lemma uint_mod_2p:
  assumes "h < 32"
  shows "uint ((r :: 32 word) mod 2 ^ h) = uint r mod 2 ^ h"
proof -
  have "uint (2 ^ h :: 32 word) = 2 ^ h"
    using assms by (simp add: uint_2p word_2p_lem word_size)
  then show ?thesis by (simp add: uint_mod)
qed

lemma sint_mod_2p:
  assumes "h \<le> 30"
  shows "sint ((r :: 32 word) mod 2 ^ h) = uint r mod 2 ^ h"
proof -
  let ?e = "r mod 2 ^ h"
  have um: "uint ?e = uint r mod 2 ^ h"
    using assms by (intro uint_mod_2p) simp
  have "uint ?e < 2 ^ h" unfolding um by simp
  also have "(2::int) ^ h \<le> 2 ^ 30"
    using assms by (intro power_increasing) simp_all
  finally have small: "uint ?e < 2 ^ 31" by simp
  have "signed_take_bit 31 (uint ?e) = uint ?e"
  proof (rule signed_take_bit_int_eq_self)
    show "- (2 ^ 31) \<le> uint ?e" by (rule order_trans [of _ 0]) simp_all
    show "uint ?e < 2 ^ 31" by (rule small)
  qed
  then show ?thesis by (simp add: sint_uint um)
qed

lemma getExpectedIndex_Some:
  assumes "h < 32"
  shows "getExpectedIndex n c h =
           Some (((n * 1103515245 + 12345 + c) * 1103515245 + 12345) mod 2 ^ h)"
  using assms by (simp add: getExpectedIndex_def Let_def)

lemma getExpectedIndex_range:
  assumes "h \<le> 30" and "getExpectedIndex n c h = Some e"
  shows "0 \<le> sint e \<and> sint e < 2 ^ h"
proof -
  from assms have "e = ((n * 1103515245 + 12345 + c) * 1103515245 + 12345) mod 2 ^ h"
    by (simp add: getExpectedIndex_Some)
  then show ?thesis using sint_mod_2p [OF assms(1)] by simp
qed

lemma getExpectedIndex_height_0: "getExpectedIndex n c 0 = Some 0"
  by (simp add: getExpectedIndex_def Let_def)

text \<open>
  C3. For every nonce, chain id and height \<open>h \<le> 30\<close>, \<open>getExpectedIndex\<close> returns the
  value of the fixed two-step computation of the specification: \<open>r = nonce\<close>, then
  \<open>r * 1103515245 + 12345\<close>, then \<open>r + chainId\<close>, then \<open>r * 1103515245 + 12345\<close>, each
  reduced modulo \<open>2 ^ 32\<close>, and at the end \<open>r mod 2 ^ h\<close>. Being a function of its three
  arguments, equal inputs give equal outputs.
\<close>

theorem getExpectedIndex_eq_expectedIndex:
  assumes "h \<le> 30"
  shows "map_option sint (getExpectedIndex nonce chainId h) =
           Some (expectedIndex (unat nonce) (sint chainId) h)"
proof -
  define r1 where "r1 = nonce * 1103515245 + 12345"
  define r2 where "r2 = r1 + chainId"
  define r where "r = r2 * 1103515245 + 12345"
  have u1: "uint r1 = (uint nonce * 1103515245 + 12345) mod 2 ^ 32"
    unfolding r1_def by (rule uint_lcg_step)
  have u2: "uint r2 = (uint r1 + sint chainId) mod 2 ^ 32"
    unfolding r2_def by (rule uint_add_signed)
  have u: "uint r = (uint r2 * 1103515245 + 12345) mod 2 ^ 32"
    unfolding r_def by (rule uint_lcg_step)
  have g: "getExpectedIndex nonce chainId h = Some (r mod 2 ^ h)"
    using assms unfolding r_def r2_def r1_def by (intro getExpectedIndex_Some) simp
  have e: "expectedIndex (unat nonce) (sint chainId) h = uint r mod 2 ^ h"
    unfolding expectedIndex_def Let_def u u2 u1 by (simp only: of_nat_unat)
  show ?thesis unfolding g e by (simp only: option.map sint_mod_2p [OF assms])
qed

text \<open>The theorem at nonce 5, chain id 7 and height 3, where the slot is 6.\<close>

theorem getExpectedIndex_eq_expectedIndex_witness:
  "map_option sint (getExpectedIndex 5 7 3) = Some (expectedIndex 5 7 3) \<and>
   expectedIndex 5 7 3 = 6"
proof -
  have "expectedIndex 5 7 3 = 6" by code_simp
  moreover have "unat (5 :: 32 word) = 5" "sint (7 :: 32 word) = 7" by simp_all
  ultimately show ?thesis using getExpectedIndex_eq_expectedIndex [of 3 5 7] by simp
qed

section \<open>check, check by check\<close>

lemmas selected_defs = selected_parent_def selected_coinbase_def selected_coinbase_hash_def

text \<open>
  \<open>check\<close> as one chain of tests on the selected members, with the local variables
  written out.
\<close>

lemma check_unfold:
  "check x a hashAuxBlock nChainId params =
    (if nIndex (selected_coinbase x a) \<noteq> 0 then Invalid NotGenerate
     else if fStrictChainId params \<and> GetChainId x (selected_parent x a) = nChainId
     then Invalid ParentHasOurChainId
     else if length (vChainMerkleBranch a) > 30 then Invalid ChainMerkleBranchTooLong
     else if isAuxPowZhash x a \<and> length (strZhashConfig a) \<noteq> 8
     then Invalid ZhashConfigWrongSize
     else if CheckMerkleBranch (sha256d x) (selected_coinbase_hash x a)
               (vMerkleBranch (selected_coinbase x a)) (nIndex (selected_coinbase x a))
             \<noteq> hashMerkleRoot (selected_parent x a)
     then Invalid MerkleRootIncorrect
     else
       case vin (tx (selected_coinbase x a)) of
         [] \<Rightarrow> Undefined
       | vin0 # _ \<Rightarrow>
          let script = scriptSig vin0;
              vchRootHash =
                rev (CheckMerkleBranch (sha256d x) hashAuxBlock (vChainMerkleBranch a)
                       (nChainIndex a));
              pcHead = search script pchMergedMiningHeader;
              pc = search script vchRootHash
          in
          if pc = length script then Invalid MissingChainMerkleRoot
          else if pcHead \<noteq> length script \<and>
                  search (drop (pcHead + 1) script) pchMergedMiningHeader
                    \<noteq> length (drop (pcHead + 1) script)
          then Invalid MultipleMergedMiningHeaders
          else if pcHead \<noteq> length script \<and> pcHead + length pchMergedMiningHeader \<noteq> pc
          then Invalid HeaderNotJustBeforeRoot
          else if pcHead = length script \<and> pc > 20 then Invalid RootNotInFirst20Bytes
          else if int (length script) - int (pc + length vchRootHash) < 8
          then Invalid MissingSizeAndNonce
          else if le32 (take 4 (drop (pc + length vchRootHash) script))
                    \<noteq> push_bit (length (vChainMerkleBranch a)) 1
          then Invalid BranchSizeMismatch
          else if Some (nChainIndex a) \<noteq>
                    getExpectedIndex (le32 (take 4 (drop (pc + length vchRootHash + 4) script)))
                      nChainId (length (vChainMerkleBranch a))
          then Invalid WrongIndex
          else Valid)"
  by (cases "isAuxPowEquihash x a"; cases "isAuxPowPOS x a")
     (simp_all add: check_def selected_defs Let_def cong: if_cong list.case_cong
        split del: if_split)

text \<open>
  C2 (amended). Under \<open>fStrictChainId\<close>, when the chain id encoded in the selected
  parent header equals \<open>nChainId\<close>, \<open>check\<close> fails: with "Aux POW parent has our chain
  ID" when the index of the selected coinbase proof is 0, and with "AuxPow is not a
  generate" otherwise, whatever the other members are. The chain-id test is the second
  one; the coinbase index is tested before it.
\<close>

theorem check_parent_has_our_chain_id:
  assumes "fStrictChainId params"
      and "GetChainId x (selected_parent x a) = nChainId"
  shows "check x a hashAuxBlock nChainId params =
     (if nIndex (selected_coinbase x a) \<noteq> 0 then Invalid NotGenerate
      else Invalid ParentHasOurChainId)"
  using assms by (simp add: check_unfold)

text \<open>
  The theorem on the example object, whose parent has chain id 1 and whose coinbase
  index is 0.
\<close>

theorem check_parent_has_our_chain_id_witness:
  "check example_extern (example_auxpow example_script) example_hash 1
     \<lparr>fStrictChainId = True\<rparr> = Invalid ParentHasOurChainId"
proof -
  have "nIndex (selected_coinbase example_extern (example_auxpow example_script)) = 0"
    by code_simp
  moreover have
    "GetChainId example_extern (selected_parent example_extern (example_auxpow example_script)) = 1"
    by code_simp
  ultimately show ?thesis
    using check_parent_has_our_chain_id
      [of "\<lparr>fStrictChainId = True\<rparr>" example_extern "example_auxpow example_script" 1
         example_hash]
    by simp
qed

text \<open>
  C2 as stated fails: with the coinbase index set to 1 in the example object, strict
  chain ids and the parent's chain id equal to ours, \<open>check\<close> reports "AuxPow is not a
  generate", not the chain-id reason.
\<close>

theorem check_chain_id_not_first_counterexample:
  "fStrictChainId \<lparr>fStrictChainId = True\<rparr> \<and>
   GetChainId example_extern (selected_parent example_extern
     ((example_auxpow example_script)
        \<lparr>coinbaseTx := (coinbaseTx (example_auxpow example_script))\<lparr>nIndex := 1\<rparr>\<rparr>)) = 1 \<and>
   check example_extern
     ((example_auxpow example_script)
        \<lparr>coinbaseTx := (coinbaseTx (example_auxpow example_script))\<lparr>nIndex := 1\<rparr>\<rparr>)
     example_hash 1 \<lparr>fStrictChainId = True\<rparr> = Invalid NotGenerate"
  by code_simp

text \<open>
  C6 (amended). For every object whose chain Merkle branch has more than 30 siblings,
  \<open>check\<close> fails: with "Aux POW chain merkle branch too long" when the two tests
  before the length test pass (coinbase index 0, and no strict chain-id clash), and
  with the reason of the first of those two that fails otherwise.
\<close>

theorem check_chain_merkle_branch_too_long:
  assumes "length (vChainMerkleBranch a) > 30"
  shows "check x a hashAuxBlock nChainId params =
     (if nIndex (selected_coinbase x a) \<noteq> 0 then Invalid NotGenerate
      else if fStrictChainId params \<and> GetChainId x (selected_parent x a) = nChainId
      then Invalid ParentHasOurChainId
      else Invalid ChainMerkleBranchTooLong)"
  using assms by (simp add: check_unfold)

text \<open>The theorem on the example object with a chain branch of 31 siblings.\<close>

theorem check_chain_merkle_branch_too_long_witness:
  "check example_extern
     ((example_auxpow example_script)\<lparr>vChainMerkleBranch := replicate 31 example_hash\<rparr>)
     example_hash 1 \<lparr>fStrictChainId = False\<rparr> = Invalid ChainMerkleBranchTooLong"
proof -
  let ?a = "(example_auxpow example_script)\<lparr>vChainMerkleBranch := replicate 31 example_hash\<rparr>"
  have "length (vChainMerkleBranch ?a) > 30" by simp
  from check_chain_merkle_branch_too_long [OF this] have
    "check example_extern ?a example_hash 1 \<lparr>fStrictChainId = False\<rparr> =
       (if nIndex (selected_coinbase example_extern ?a) \<noteq> 0 then Invalid NotGenerate
        else if fStrictChainId \<lparr>fStrictChainId = False\<rparr> \<and>
                GetChainId example_extern (selected_parent example_extern ?a) = 1
        then Invalid ParentHasOurChainId
        else Invalid ChainMerkleBranchTooLong)" .
  also have "\<dots> = Invalid ChainMerkleBranchTooLong" by code_simp
  finally show ?thesis .
qed

text \<open>
  C6 as stated fails: the same object with 31 siblings and the coinbase index set to 1
  is rejected with "AuxPow is not a generate".
\<close>

theorem check_branch_too_long_counterexample:
  "length (vChainMerkleBranch
     ((example_auxpow example_script)
        \<lparr>vChainMerkleBranch := replicate 31 example_hash,
         coinbaseTx := (coinbaseTx (example_auxpow example_script))\<lparr>nIndex := 1\<rparr>\<rparr>)) = 31 \<and>
   check example_extern
     ((example_auxpow example_script)
        \<lparr>vChainMerkleBranch := replicate 31 example_hash,
         coinbaseTx := (coinbaseTx (example_auxpow example_script))\<lparr>nIndex := 1\<rparr>\<rparr>)
     example_hash 1 \<lparr>fStrictChainId = False\<rparr> = Invalid NotGenerate"
  by code_simp

text \<open>
  C8. Two objects that differ only in the contents of \<open>strZhashConfig\<close>, both of
  length 8, get the same result from \<open>check\<close>, for every block hash, chain id and
  parameters: \<open>check\<close> reads the length of the string and nothing else of it.
\<close>

theorem check_zhash_config_noninterference:
  assumes "length z1 = 8" and "length z2 = 8"
  shows "check x (a\<lparr>strZhashConfig := z1\<rparr>) hashAuxBlock nChainId params =
         check x (a\<lparr>strZhashConfig := z2\<rparr>) hashAuxBlock nChainId params"
  using assms
  by (simp add: check_unfold selected_defs isAuxPowEquihash_def isAuxPowZhash_def
        isAuxPowPOS_def cong: if_cong list.case_cong split del: if_split)

text \<open>The theorem on the example object with the Zhash flag and two 8-byte strings.\<close>

theorem check_zhash_config_noninterference_witness:
  "check example_extern
     ((example_auxpow example_script)\<lparr>nVersion := 2, strZhashConfig := ''ZcashPoW''\<rparr>)
     example_hash 1 \<lparr>fStrictChainId = False\<rparr> =
   check example_extern
     ((example_auxpow example_script)\<lparr>nVersion := 2, strZhashConfig := ''GlobalTk''\<rparr>)
     example_hash 1 \<lparr>fStrictChainId = False\<rparr>"
  using check_zhash_config_noninterference [of "''ZcashPoW''" "''GlobalTk''" example_extern
      "(example_auxpow example_script)\<lparr>nVersion := 2\<rparr>" example_hash 1
      "\<lparr>fStrictChainId = False\<rparr>"]
  by simp

text \<open>What a successful \<open>check\<close> says about the chain index.\<close>

lemma check_Valid_index:
  assumes "check x a hashAuxBlock nChainId params = Valid"
  shows "length (vChainMerkleBranch a) \<le> 30 \<and>
         (\<exists>n. getExpectedIndex n nChainId (length (vChainMerkleBranch a)) = Some (nChainIndex a))"
  using assms
  by (auto simp add: check_unfold Let_def split: if_splits list.splits)

lemma CheckMerkleBranch_sentinel: "CheckMerkleBranch sha leaf branch (- 1) = uint256_null"
  by (simp add: CheckMerkleBranch_def)

text \<open>
  C10. \<open>check\<close> never returns success for an object whose chain index is negative,
  the sentinel \<open>- 1\<close> included: success needs a chain branch of at most 30 siblings and
  a chain index equal to \<open>getExpectedIndex\<close>, which for a height up to 30 is at least 0
  and below \<open>2 ^ h\<close> (\<open>getExpectedIndex_range\<close>), although the fold of the chain branch
  accepts the sentinel and returns the zero hash (\<open>CheckMerkleBranch_sentinel\<close>).
\<close>

theorem check_negative_chain_index:
  assumes "sint (nChainIndex a) < 0"
  shows "check x a hashAuxBlock nChainId params \<noteq> Valid"
proof
  assume "check x a hashAuxBlock nChainId params = Valid"
  from check_Valid_index [OF this] obtain n where
    "length (vChainMerkleBranch a) \<le> 30"
    "getExpectedIndex n nChainId (length (vChainMerkleBranch a)) = Some (nChainIndex a)"
    by blast
  from getExpectedIndex_range [OF this] assms show False by simp
qed

text \<open>The theorem on the example object with the chain index set to the sentinel.\<close>

theorem check_negative_chain_index_witness:
  "sint (nChainIndex ((example_auxpow example_script)\<lparr>nChainIndex := - 1\<rparr>)) < 0 \<and>
   check example_extern ((example_auxpow example_script)\<lparr>nChainIndex := - 1\<rparr>) example_hash 1
     \<lparr>fStrictChainId = False\<rparr> \<noteq> Valid"
proof -
  have "sint (nChainIndex ((example_auxpow example_script)\<lparr>nChainIndex := - 1\<rparr>)) < 0"
    by simp
  with check_negative_chain_index [OF this] show ?thesis by blast
qed

text \<open>
  C7 (amended). For every object whose selected coinbase has a first input whose
  \<open>scriptSig\<close> holds the merged-mining header twice (the second occurrence found by
  searching again from one byte past the first), \<open>check\<close> fails: with "Multiple merged
  mining headers in coinbase" when the six tests before it pass (coinbase index 0, no
  strict chain-id clash, chain branch of at most 30 siblings, Zhash string of 8 bytes
  under the Zhash flag, coinbase Merkle branch leading to the parent's Merkle root, chain
  Merkle root present in the script), and with the reason of the first of those six
  that fails otherwise.
\<close>

theorem check_multiple_headers:
  assumes "vin (tx (selected_coinbase x a)) = vin0 # ins"
      and "search (scriptSig vin0) pchMergedMiningHeader = pcHead"
      and "pcHead \<noteq> length (scriptSig vin0)"
      and "search (drop (pcHead + 1) (scriptSig vin0)) pchMergedMiningHeader
             \<noteq> length (drop (pcHead + 1) (scriptSig vin0))"
  shows "check x a hashAuxBlock nChainId params =
     (if nIndex (selected_coinbase x a) \<noteq> 0 then Invalid NotGenerate
      else if fStrictChainId params \<and> GetChainId x (selected_parent x a) = nChainId
      then Invalid ParentHasOurChainId
      else if length (vChainMerkleBranch a) > 30 then Invalid ChainMerkleBranchTooLong
      else if isAuxPowZhash x a \<and> length (strZhashConfig a) \<noteq> 8
      then Invalid ZhashConfigWrongSize
      else if CheckMerkleBranch (sha256d x) (selected_coinbase_hash x a)
                (vMerkleBranch (selected_coinbase x a)) 0
              \<noteq> hashMerkleRoot (selected_parent x a)
      then Invalid MerkleRootIncorrect
      else if search (scriptSig vin0)
                (rev (CheckMerkleBranch (sha256d x) hashAuxBlock (vChainMerkleBranch a)
                        (nChainIndex a)))
              = length (scriptSig vin0)
      then Invalid MissingChainMerkleRoot
      else Invalid MultipleMergedMiningHeaders)"
  using assms by (simp add: check_unfold Let_def)

text \<open>
  The theorem on the example object around a script with the chain Merkle root behind a
  header at offset 50 and a second header at the end: all six earlier tests pass.
\<close>

theorem check_multiple_headers_witness:
  "check example_extern (example_auxpow example_script_two_headers) example_hash 1
     \<lparr>fStrictChainId = False\<rparr> = Invalid MultipleMergedMiningHeaders"
proof -
  let ?a = "example_auxpow example_script_two_headers"
  let ?in0 = "\<lparr>prevout_hash = uint256_null, prevout_n = - 1,
                scriptSig = example_script_two_headers\<rparr>"
  have v: "vin (tx (selected_coinbase example_extern ?a)) = ?in0 # []"
    by (simp add: example_auxpow_def selected_coinbase_def isAuxPowPOS_def Let_def)
  have h: "search (scriptSig ?in0) pchMergedMiningHeader = 50" by code_simp
  have n: "50 \<noteq> length (scriptSig ?in0)" by code_simp
  have s: "search (drop (50 + 1) (scriptSig ?in0)) pchMergedMiningHeader
             \<noteq> length (drop (50 + 1) (scriptSig ?in0))" by code_simp
  note check_multiple_headers [OF v h n s, of example_hash 1 "\<lparr>fStrictChainId = False\<rparr>"]
  also have
    "(if nIndex (selected_coinbase example_extern ?a) \<noteq> 0 then Invalid NotGenerate
      else if fStrictChainId \<lparr>fStrictChainId = False\<rparr> \<and>
              GetChainId example_extern (selected_parent example_extern ?a) = 1
      then Invalid ParentHasOurChainId
      else if length (vChainMerkleBranch ?a) > 30 then Invalid ChainMerkleBranchTooLong
      else if isAuxPowZhash example_extern ?a \<and> length (strZhashConfig ?a) \<noteq> 8
      then Invalid ZhashConfigWrongSize
      else if CheckMerkleBranch (sha256d example_extern)
                (selected_coinbase_hash example_extern ?a)
                (vMerkleBranch (selected_coinbase example_extern ?a)) 0
              \<noteq> hashMerkleRoot (selected_parent example_extern ?a)
      then Invalid MerkleRootIncorrect
      else if search (scriptSig ?in0)
                (rev (CheckMerkleBranch (sha256d example_extern) example_hash
                        (vChainMerkleBranch ?a) (nChainIndex ?a)))
              = length (scriptSig ?in0)
      then Invalid MissingChainMerkleRoot
      else Invalid MultipleMergedMiningHeaders) = Invalid MultipleMergedMiningHeaders"
    by code_simp
  finally show ?thesis .
qed

text \<open>
  C7 as stated fails: a coinbase script that is the header twice and nothing else has
  two occurrences of it (at offset 0, and at offset 3 of the rest after the first
  byte), and \<open>check\<close> rejects the example object around it with "Aux POW missing chain
  merkle root in parent coinbase", the test that comes before the header count.
\<close>

theorem check_multiple_headers_counterexample:
  "search (pchMergedMiningHeader @ pchMergedMiningHeader) pchMergedMiningHeader = 0 \<and>
   search (drop 1 (pchMergedMiningHeader @ pchMergedMiningHeader)) pchMergedMiningHeader = 3 \<and>
   check example_extern (example_auxpow (pchMergedMiningHeader @ pchMergedMiningHeader))
     example_hash 1 \<lparr>fStrictChainId = False\<rparr> = Invalid MissingChainMerkleRoot"
  by code_simp

subsection \<open>The tree size and the nonce\<close>

text \<open>
  Four bytes read by \<open>le32\<close> are the number they spell in little-endian order.
\<close>

lemma unat_le32_step:
  fixes b :: byte and w :: "32 word"
  assumes "unat w < 2 ^ 24"
  shows "unat (ucast b OR push_bit 8 w) = unat b + 256 * unat w"
proof -
  have "(ucast b :: 32 word) AND push_bit 8 w = 0"
    by (rule bit_word_eqI) (auto simp: bit_simps dest: bit_imp_le_length)
  then have "ucast b OR push_bit 8 w = (ucast b :: 32 word) + push_bit 8 w"
    by (simp add: disjunctive_add_eq_or)
  moreover have "unat (ucast b :: 32 word) = unat b"
  proof -
    have "unat b < 2 ^ 32"
      using unsigned_less [of b, where 'a = nat] by simp
    then show ?thesis by (simp add: unsigned_ucast_eq take_bit_nat_eq_self)
  qed
  moreover have "unat (push_bit 8 w) = 256 * unat w"
    using assms by (simp add: push_bit_eq_mult unat_word_ariths)
  moreover have "unat b < 256" using unsigned_less [of b, where 'a = nat] by simp
  ultimately show ?thesis
    using assms by (simp add: unat_word_ariths)
qed

lemma unat_le32_4:
  "unat (le32 [b0, b1, b2, b3]) =
     unat b0 + 256 * unat b1 + 65536 * unat b2 + 16777216 * unat b3"
proof -
  have b: "unat b0 < 256" "unat b1 < 256" "unat b2 < 256" "unat b3 < 256"
    using unsigned_less [of b0, where 'a = nat] unsigned_less [of b1, where 'a = nat]
      unsigned_less [of b2, where 'a = nat] unsigned_less [of b3, where 'a = nat] by simp_all
  have 3: "unat (le32 [b3]) = unat b3"
    using unat_le32_step [of 0 b3] by simp
  have 2: "unat (le32 [b2, b3]) = unat b2 + 256 * unat b3"
    using unat_le32_step [of "le32 [b3]" b2] 3 b by simp
  have 1: "unat (le32 [b1, b2, b3]) = unat b1 + 256 * (unat b2 + 256 * unat b3)"
    using unat_le32_step [of "le32 [b2, b3]" b1] 2 b by simp
  have "unat (le32 [b0, b1, b2, b3]) =
          unat b0 + 256 * (unat b1 + 256 * (unat b2 + 256 * unat b3))"
    using unat_le32_step [of "le32 [b1, b2, b3]" b0] 1 b by simp
  then show ?thesis by simp
qed

lemma le32_4:
  "le32 [b0, b1, b2, b3] =
     of_nat (unat b0 + 256 * unat b1 + 65536 * unat b2 + 16777216 * unat b3)"
  by (metis unat_le32_4 of_nat_unat ucast_id)

lemma le32_4_eq_2p:
  assumes "h \<le> 30"
  shows "(le32 [b0, b1, b2, b3] = push_bit h 1) =
         (unat b0 + 256 * unat b1 + 65536 * unat b2 + 16777216 * unat b3 = 2 ^ h)"
proof -
  have "unat (push_bit h 1 :: 32 word) = 2 ^ h"
    using assms
    by (simp add: unsigned_of_nat take_bit_nat_eq_self unat_eq_nat_uint uint_2p word_2p_lem
          word_size)
  then show ?thesis
    by (metis unat_le32_4 word_unat_eq_iff)
qed

text \<open>
  C5. Take any object that passes all earlier tests of \<open>check\<close>: the selected coinbase
  has a first input; its index is 0; there is no strict chain-id clash; the chain
  branch has at most 30 siblings; the Zhash string has 8 bytes under the Zhash flag; the
  coinbase Merkle branch leads to the parent's Merkle root; the reversed chain Merkle
  root occurs in the script, first at offset \<open>pc\<close>; a merged-mining header, if there is
  one, occurs once and ends where the root starts, and without one the root starts
  within the first 20 bytes; and at least 8 bytes \<open>s0 \<dots> s3\<close>, \<open>n0 \<dots> n3\<close> follow the root.
  Then \<open>check\<close> fails with "Aux POW merkle branch size does not match parent
  coinbase" unless \<open>s0 \<dots> s3\<close>, read as a little-endian 32-bit number, are
  \<open>1 << length vChainMerkleBranch\<close>; otherwise it fails with "Aux POW wrong index"
  unless the chain index is \<open>getExpectedIndex\<close> of the nonce spelled by \<open>n0 \<dots> n3\<close> in
  little-endian order, the chain id and the branch length; and it succeeds when both
  hold.
\<close>

theorem check_size_and_index:
  assumes coinbase: "vin (tx (selected_coinbase x a)) = vin0 # ins"
    and root: "vchRootHash =
                 rev (CheckMerkleBranch (sha256d x) hashAuxBlock (vChainMerkleBranch a)
                        (nChainIndex a))"
    and pcHead: "pcHead = search (scriptSig vin0) pchMergedMiningHeader"
    and pc: "pc = search (scriptSig vin0) vchRootHash"
    and generate: "nIndex (selected_coinbase x a) = 0"
    and chain: "\<not> (fStrictChainId params \<and> GetChainId x (selected_parent x a) = nChainId)"
    and height: "length (vChainMerkleBranch a) \<le> 30"
    and zhash: "isAuxPowZhash x a \<Longrightarrow> length (strZhashConfig a) = 8"
    and merkle: "CheckMerkleBranch (sha256d x) (selected_coinbase_hash x a)
                   (vMerkleBranch (selected_coinbase x a)) 0
                 = hashMerkleRoot (selected_parent x a)"
    and found: "pc \<noteq> length (scriptSig vin0)"
    and header: "pcHead \<noteq> length (scriptSig vin0) \<Longrightarrow>
                   search (drop (pcHead + 1) (scriptSig vin0)) pchMergedMiningHeader
                     = length (drop (pcHead + 1) (scriptSig vin0)) \<and>
                   pcHead + 4 = pc"
    and legacy: "pcHead = length (scriptSig vin0) \<Longrightarrow> pc \<le> 20"
    and tail: "drop (pc + length vchRootHash) (scriptSig vin0)
                 = s0 # s1 # s2 # s3 # n0 # n1 # n2 # n3 # rest"
  shows "check x a hashAuxBlock nChainId params =
     (if unat s0 + 256 * unat s1 + 65536 * unat s2 + 16777216 * unat s3
           \<noteq> 2 ^ length (vChainMerkleBranch a)
      then Invalid BranchSizeMismatch
      else if Some (nChainIndex a) \<noteq>
                getExpectedIndex
                  (of_nat (unat n0 + 256 * unat n1 + 65536 * unat n2 + 16777216 * unat n3))
                  nChainId (length (vChainMerkleBranch a))
      then Invalid WrongIndex
      else Valid)"
proof -
  let ?script = "scriptSig vin0"
  let ?p = "pc + length vchRootHash"
  have len: "length (drop ?p ?script) = 8 + length rest"
    by (simp only: tail) simp
  then have eight: "\<not> int (length ?script) - int ?p < 8" by simp
  have size: "take 4 (drop ?p ?script) = [s0, s1, s2, s3]"
    by (simp only: tail) simp
  have "drop (?p + 4) ?script = drop 4 (drop ?p ?script)"
    by (simp add: add.commute)
  then have nonce: "take 4 (drop (?p + 4) ?script) = [n0, n1, n2, n3]"
    by (simp only: tail) simp
  have magic: "length pchMergedMiningHeader = 4"
    by (simp add: pchMergedMiningHeader_def)
  have c1: "\<not> (pcHead \<noteq> length ?script \<and>
               search (drop (pcHead + 1) ?script) pchMergedMiningHeader
                 \<noteq> length (drop (pcHead + 1) ?script))"
    using header by blast
  have c2: "\<not> (pcHead \<noteq> length ?script \<and> pcHead + length pchMergedMiningHeader \<noteq> pc)"
    using header magic by auto
  have c3: "\<not> (pcHead = length ?script \<and> pc > 20)"
    using legacy by auto
  have c4: "\<not> (isAuxPowZhash x a \<and> length (strZhashConfig a) \<noteq> 8)"
    using zhash by blast
  have c5: "\<not> 30 < length (vChainMerkleBranch a)" using height by simp
  have unfolded: "check x a hashAuxBlock nChainId params =
     (if le32 [s0, s1, s2, s3] \<noteq> push_bit (length (vChainMerkleBranch a)) 1
      then Invalid BranchSizeMismatch
      else if Some (nChainIndex a) \<noteq>
                getExpectedIndex (le32 [n0, n1, n2, n3]) nChainId (length (vChainMerkleBranch a))
      then Invalid WrongIndex
      else Valid)"
    unfolding check_unfold coinbase Let_def list.case
      root [symmetric] pcHead [symmetric] pc [symmetric]
    using generate chain c5 c4 merkle found c1 c2 c3 eight
    by (simp only: size nonce if_False if_True not_not refl simp_thms)
  have size_eq:
    "(le32 [s0, s1, s2, s3] \<noteq> push_bit (length (vChainMerkleBranch a)) 1) =
     (unat s0 + 256 * unat s1 + 65536 * unat s2 + 16777216 * unat s3
        \<noteq> 2 ^ length (vChainMerkleBranch a))"
    by (simp only: le32_4_eq_2p [OF height])
  show ?thesis
    unfolding unfolded size_eq le32_4 [of n0 n1 n2 n3] ..
qed

text \<open>
  The theorem on the example object, which passes every earlier test on the legacy
  path (no header, root at offset 1) and has the bytes 1, 0, 0, 0 and 0, 0, 0, 0 after
  the root: tree size 1 for the empty chain branch, nonce 0, chain index 0.
\<close>

theorem check_size_and_index_witness:
  "check example_extern (example_auxpow example_script) example_hash 1
     \<lparr>fStrictChainId = False\<rparr> = Valid"
proof -
  let ?a = "example_auxpow example_script"
  let ?in0 = "\<lparr>prevout_hash = uint256_null, prevout_n = - 1, scriptSig = example_script\<rparr>"
  let ?root = "rev (CheckMerkleBranch (sha256d example_extern) example_hash
                      (vChainMerkleBranch ?a) (nChainIndex ?a))"
  let ?pcHead = "search (scriptSig ?in0) pchMergedMiningHeader"
  let ?pc = "search (scriptSig ?in0) ?root"
  have coinbase: "vin (tx (selected_coinbase example_extern ?a)) = ?in0 # []"
    by (simp add: example_auxpow_def selected_coinbase_def isAuxPowPOS_def Let_def)
  have generate: "nIndex (selected_coinbase example_extern ?a) = 0" by code_simp
  have chain: "\<not> (fStrictChainId \<lparr>fStrictChainId = False\<rparr> \<and>
                  GetChainId example_extern (selected_parent example_extern ?a) = 1)"
    by simp
  have height: "length (vChainMerkleBranch ?a) \<le> 30" by code_simp
  have zhash: "length (strZhashConfig ?a) = 8" if "isAuxPowZhash example_extern ?a"
    using that by (simp add: isAuxPowZhash_def example_auxpow_def Let_def)
  have merkle: "CheckMerkleBranch (sha256d example_extern)
                  (selected_coinbase_hash example_extern ?a)
                  (vMerkleBranch (selected_coinbase example_extern ?a)) 0
                = hashMerkleRoot (selected_parent example_extern ?a)"
    by code_simp
  have found: "?pc \<noteq> length (scriptSig ?in0)" by code_simp
  have nohead: "?pcHead = length (scriptSig ?in0)" by code_simp
  have early: "?pc \<le> 20" by code_simp
  have tail: "drop (?pc + length ?root) (scriptSig ?in0) = 1 # 0 # 0 # 0 # 0 # 0 # 0 # 0 # []"
    by code_simp
  have "check example_extern ?a example_hash 1 \<lparr>fStrictChainId = False\<rparr> =
     (if unat (1 :: byte) + 256 * unat (0 :: byte) + 65536 * unat (0 :: byte)
            + 16777216 * unat (0 :: byte) \<noteq> 2 ^ length (vChainMerkleBranch ?a)
      then Invalid BranchSizeMismatch
      else if Some (nChainIndex ?a) \<noteq>
                getExpectedIndex
                  (of_nat (unat (0 :: byte) + 256 * unat (0 :: byte) + 65536 * unat (0 :: byte)
                     + 16777216 * unat (0 :: byte)))
                  1 (length (vChainMerkleBranch ?a))
      then Invalid WrongIndex
      else Valid)"
    by (rule check_size_and_index [OF coinbase refl refl refl generate chain height zhash
          merkle found _ _ tail]) (use nohead early in simp_all)
  also have "\<dots> = Valid"
    by (simp add: example_auxpow_def Let_def getExpectedIndex_height_0)
  finally show ?thesis .
qed

text \<open>
  Conversely, an object that gets one of the last three results has a first coinbase
  input and passes every earlier test.
\<close>

lemma check_tailD:
  assumes "check x a hashAuxBlock nChainId params
             \<in> {Invalid BranchSizeMismatch, Invalid WrongIndex, Valid}"
  shows "\<exists>vin0 ins. vin (tx (selected_coinbase x a)) = vin0 # ins \<and>
          (let script = scriptSig vin0;
               vchRootHash =
                 rev (CheckMerkleBranch (sha256d x) hashAuxBlock (vChainMerkleBranch a)
                        (nChainIndex a));
               pcHead = search script pchMergedMiningHeader;
               pc = search script vchRootHash
           in nIndex (selected_coinbase x a) = 0 \<and>
              \<not> (fStrictChainId params \<and> GetChainId x (selected_parent x a) = nChainId) \<and>
              length (vChainMerkleBranch a) \<le> 30 \<and>
              \<not> (isAuxPowZhash x a \<and> length (strZhashConfig a) \<noteq> 8) \<and>
              CheckMerkleBranch (sha256d x) (selected_coinbase_hash x a)
                (vMerkleBranch (selected_coinbase x a)) 0 = hashMerkleRoot (selected_parent x a) \<and>
              pc \<noteq> length script \<and>
              \<not> (pcHead \<noteq> length script \<and>
                  search (drop (pcHead + 1) script) pchMergedMiningHeader
                    \<noteq> length (drop (pcHead + 1) script)) \<and>
              \<not> (pcHead \<noteq> length script \<and> pcHead + length pchMergedMiningHeader \<noteq> pc) \<and>
              \<not> (pcHead = length script \<and> pc > 20) \<and>
              8 \<le> int (length script) - int (pc + length vchRootHash))"
proof (cases "vin (tx (selected_coinbase x a))")
  case Nil
  with assms show ?thesis by (simp add: check_unfold split: if_splits)
next
  case (Cons vin0 ins)
  with assms show ?thesis
    by (simp add: check_unfold Let_def split: if_splits)
qed

section \<open>initAuxPow, then check\<close>

subsection \<open>Searching the script initAuxPow builds\<close>

lemma search_prefix: "prefix pat hay \<Longrightarrow> search hay pat = 0"
  by (cases hay) auto

lemma prefix_shifted_const:
  "prefix r (c # r @ t) \<Longrightarrow> r = replicate (length r) c"
proof (induction r arbitrary: c)
  case Nil
  then show ?case by simp
next
  case (Cons a r)
  from Cons.prems have "a = c" and "prefix r (a # r @ t)" by auto
  with Cons.IH [of a] show ?case by simp
qed

text \<open>
  Behind the push opcode \<open>c\<close> the pushed bytes are found at offset 1, unless they are
  all equal to the opcode (then they are found at offset 0).
\<close>

lemma search_pushed_root:
  assumes "r \<noteq> replicate (length r) c"
  shows "search (c # r @ t) r = 1"
proof -
  have "\<not> prefix r (c # r @ t)"
    using assms prefix_shifted_const [of r c t] by auto
  moreover have "search (r @ t) r = 0" by (rule search_prefix) simp
  ultimately show ?thesis by simp
qed

lemma magic_not_across:
  assumes "\<not> prefix pchMergedMiningHeader r"
  shows "\<not> prefix pchMergedMiningHeader (r @ [1, 0, 0, 0, 0, 0, 0, 0])"
proof
  assume "prefix pchMergedMiningHeader (r @ [1, 0, 0, 0, 0, 0, 0, 0])"
  with assms obtain us where
    us: "pchMergedMiningHeader = r @ us" "prefix us [1, 0, 0, 0, 0, 0, 0, 0::byte]"
    by (auto simp: prefix_append)
  with assms have "us \<noteq> []" by auto
  with us(2) have "hd us = 1" by (cases us) auto
  moreover have "set us \<subseteq> set pchMergedMiningHeader" by (subst us(1)) simp
  with \<open>us \<noteq> []\<close> have "hd us \<in> set pchMergedMiningHeader" by (cases us) auto
  ultimately show False by (simp add: pchMergedMiningHeader_def)
qed

lemma search_magic_append:
  assumes "search r pchMergedMiningHeader = length r"
  shows "search (r @ [1, 0, 0, 0, 0, 0, 0, 0]) pchMergedMiningHeader = length r + 8"
  using assms
proof (induction r)
  case Nil
  show ?case by (simp add: pchMergedMiningHeader_def)
next
  case (Cons a r)
  from Cons.prems have np: "\<not> prefix pchMergedMiningHeader (a # r)"
    and s: "search r pchMergedMiningHeader = length r"
    by (auto split: if_splits)
  from magic_not_across [OF np]
  have "\<not> prefix pchMergedMiningHeader (a # r @ [1, 0, 0, 0, 0, 0, 0, 0])"
    by simp
  with Cons.IH [OF s] show ?case by simp
qed

lemma search_magic_script:
  assumes "search r pchMergedMiningHeader = length r"
  shows "search (40 # r @ [1, 0, 0, 0, 0, 0, 0, 0]) pchMergedMiningHeader = length r + 9"
proof -
  have "\<not> prefix pchMergedMiningHeader (40 # r @ [1, 0, 0, 0, 0, 0, 0, 0])"
    by (simp add: pchMergedMiningHeader_def)
  with search_magic_append [OF assms] show ?thesis by simp
qed

lemma push_minimal_inputData:
  assumes "length h = 32"
  shows "CScript_push (minimal_inputData h) = 40 # rev h @ [1, 0, 0, 0, 0, 0, 0, 0]"
  using assms by (simp add: CScript_push_def minimal_inputData_def Let_def numeral_eq_Suc)

subsection \<open>check on a minimal object\<close>

lemma check_minimal:
  assumes len: "length h = 32"
    and nomagic: "search (rev h) pchMergedMiningHeader = length (rev h)"
    and notconst: "h \<noteq> replicate 32 40"
    and ns: "\<not> fStrictChainId params"
    and idx: "nIndex (selected_coinbase x a) = 0"
    and br: "vChainMerkleBranch a = []"
    and ci: "nChainIndex a = 0"
    and zh: "isAuxPowZhash x a \<Longrightarrow> length (strZhashConfig a) = 8"
    and mb: "vMerkleBranch (selected_coinbase x a) = []"
    and root: "hashMerkleRoot (selected_parent x a) = selected_coinbase_hash x a"
    and vin: "vin (tx (selected_coinbase x a)) = [fake_input]"
    and scr: "scriptSig fake_input = CScript_push (minimal_inputData h)"
  shows "check x a h c params = Valid"
proof -
  let ?t = "[1, 0, 0, 0, 0, 0, 0, 0] :: bytes"
  let ?script = "40 # rev h @ ?t"
  have script: "scriptSig fake_input = ?script"
    using scr push_minimal_inputData [OF len] by simp
  have fold0: "CheckMerkleBranch (sha256d x) h [] 0 = h"
    and fold1: "CheckMerkleBranch (sha256d x) (selected_coinbase_hash x a) [] 0
                  = selected_coinbase_hash x a"
    by (simp_all add: CheckMerkleBranch_def)
  have "rev h \<noteq> replicate (length (rev h)) 40"
    using notconst len by (metis length_rev rev_replicate rev_rev_ident)
  then have pc: "search ?script (rev h) = 1"
    by (rule search_pushed_root)
  have pcHead: "search ?script pchMergedMiningHeader = 41"
    using search_magic_script [OF nomagic] len by simp
  have lens: "length ?script = 41" using len by simp
  have size: "take 4 (drop 33 ?script) = [1, 0, 0, 0]"
    and nonce: "take 4 (drop 37 ?script) = [0, 0, 0, 0]"
    using len by simp_all
  have le1: "le32 [1, 0, 0, 0] = 1" and le0: "le32 [0, 0, 0, 0] = 0" by simp_all
  show ?thesis
    using ns zh
    by (simp add: check_unfold idx br ci mb root vin script fold0 fold1 pc pcHead lens len
          size nonce le1 le0 getExpectedIndex_height_0 Let_def
          del: search.simps le32.simps)
qed

lemma check_minimal_auxpow:
  assumes "minimal_auxpow x a h" and "length h = 32"
    and "search (rev h) pchMergedMiningHeader = length (rev h)"
    and "h \<noteq> replicate 32 40"
    and "\<not> fStrictChainId params"
  shows "check x a h c params = Valid"
proof -
  from assms(1) obtain fake_input where
    "vin (tx (selected_coinbase x a)) = [fake_input]"
    "scriptSig fake_input = CScript_push (minimal_inputData h)"
    by (auto simp: minimal_auxpow_def)
  with assms show ?thesis
    by (intro check_minimal [where fake_input = fake_input]) (simp_all add: minimal_auxpow_def)
qed

subsection \<open>What initAuxPow builds\<close>

lemmas initAuxPow_simps = Let_def fake_coinbase_def CAuxPow_new_POS_def CAuxPow_new_def
  CMerkleTx_new_def selected_defs isAuxPowPOS_def isAuxPowEquihash_def isAuxPowZhash_def
  minimal_auxpow_def

lemma initAuxPow_equihash_stake_minimal:
  assumes "v AND AUXPOW_STAKE_FLAG x \<noteq> 0"
    and "v AND AUXPOW_EQUIHASH_FLAG x \<noteq> 0"
    and "v AND AUXPOW_ZHASH_FLAG x \<noteq> 0 \<Longrightarrow> length (strZhashPersonalize x) = 8"
    and "\<And>t. ComputeMerkleRoot x [t] = t"
  shows "\<exists>a. initAuxPow_equihash_stake x h v = Inr a \<and> minimal_auxpow x a h"
  using assms by (simp add: initAuxPow_equihash_stake_def initAuxPow_simps)

lemma initAuxPow_equihash_minimal:
  assumes "\<not> v AND AUXPOW_STAKE_FLAG x \<noteq> 0"
    and "v AND AUXPOW_EQUIHASH_FLAG x \<noteq> 0"
    and "v AND AUXPOW_ZHASH_FLAG x \<noteq> 0 \<Longrightarrow> length (strZhashPersonalize x) = 8"
    and "\<And>t. ComputeMerkleRoot x [t] = t"
  shows "\<exists>a. initAuxPow_equihash x h v = Inr a \<and> minimal_auxpow x a h"
  using assms by (simp add: initAuxPow_equihash_def initAuxPow_simps)

lemma initAuxPow_default_stake_minimal:
  assumes "v AND AUXPOW_STAKE_FLAG x \<noteq> 0"
    and "\<not> v AND AUXPOW_EQUIHASH_FLAG x \<noteq> 0"
    and "\<not> v AND AUXPOW_ZHASH_FLAG x \<noteq> 0"
    and "\<And>t. ComputeMerkleRoot x [t] = t"
  shows "\<exists>a. initAuxPow_default_stake x h v = Inr a \<and> minimal_auxpow x a h"
  using assms by (simp add: initAuxPow_default_stake_def initAuxPow_simps)

lemma initAuxPow_default_minimal:
  assumes "\<not> v AND AUXPOW_STAKE_FLAG x \<noteq> 0"
    and "\<not> v AND AUXPOW_EQUIHASH_FLAG x \<noteq> 0"
    and "\<not> v AND AUXPOW_ZHASH_FLAG x \<noteq> 0"
    and "\<And>t. ComputeMerkleRoot x [t] = t"
  shows "\<exists>a. initAuxPow_default x h v = Inr a \<and> minimal_auxpow x a h"
  using assms by (simp add: initAuxPow_default_def initAuxPow_simps)

lemma initAuxPow_minimal:
  fixes ops :: "'hdr header_ops"
  assumes hash: "GetHash ops (SetAuxpowVersion ops header0 True) = h"
    and zflag: "v AND AUXPOW_ZHASH_FLAG x \<noteq> 0 \<Longrightarrow> v AND AUXPOW_EQUIHASH_FLAG x \<noteq> 0"
    and eflag: "v AND AUXPOW_EQUIHASH_FLAG x \<noteq> 0 \<Longrightarrow>
                  GetAlgo ops (SetAuxpowVersion ops header0 True) \<in> {ALGO_EQUIHASH, ALGO_ZHASH}"
    and pers: "v AND AUXPOW_ZHASH_FLAG x \<noteq> 0 \<Longrightarrow> length (strZhashPersonalize x) = 8"
    and single: "\<And>t. ComputeMerkleRoot x [t] = t"
  shows "\<exists>a. initAuxPow x ops header0 v = Inr (SetAuxpowVersion ops header0 True, a) \<and>
             minimal_auxpow x a h"
proof -
  let ?hdr = "SetAuxpowVersion ops header0 True"
  let ?E = "v AND AUXPOW_EQUIHASH_FLAG x \<noteq> 0"
  let ?Z = "v AND AUXPOW_ZHASH_FLAG x \<noteq> 0"
  let ?S = "v AND AUXPOW_STAKE_FLAG x \<noteq> 0"
  let ?A = "GetAlgo ops ?hdr = ALGO_EQUIHASH \<or> GetAlgo ops ?hdr = ALGO_ZHASH"
  show ?thesis
  proof (cases ?E)
    case True
    with eflag have A: ?A by simp
    show ?thesis
    proof (cases ?S)
      case S: True
      from initAuxPow_equihash_stake_minimal [OF S True pers single]
      obtain a where "initAuxPow_equihash_stake x h v = Inr a" "minimal_auxpow x a h"
        by blast
      with A True S show ?thesis by (simp add: initAuxPow_def hash)
    next
      case S: False
      from initAuxPow_equihash_minimal [OF S True pers single]
      obtain a where "initAuxPow_equihash x h v = Inr a" "minimal_auxpow x a h"
        by blast
      with A True S show ?thesis by (simp add: initAuxPow_def hash)
    qed
  next
    case False
    with zflag have Z: "\<not> ?Z" by blast
    show ?thesis
    proof (cases ?S)
      case S: True
      from initAuxPow_default_stake_minimal [OF S False Z single]
      obtain a where "initAuxPow_default_stake x h v = Inr a" "minimal_auxpow x a h"
        by blast
      with False Z S show ?thesis by (simp add: initAuxPow_def hash)
    next
      case S: False
      from initAuxPow_default_minimal [OF S False Z single]
      obtain a where "initAuxPow_default x h v = Inr a" "minimal_auxpow x a h"
        by blast
      with False Z S show ?thesis by (simp add: initAuxPow_def hash)
    qed
  qed
qed

subsection \<open>The round trip\<close>

text \<open>
  C1 (amended). Let \<open>h\<close> be the hash of the header once its auxpow version flag is
  set. If \<open>h\<close> is 32 bytes that, reversed, do not contain the merged-mining header and
  are not all equal to the push opcode 40; if the version flags fit the header (the
  Zhash flag only together with the Equihash flag, the Equihash flag only on a header
  whose algorithm is Equihash or Zhash); if under the Zhash flag the configured
  personalization string has 8 bytes; and if the Merkle root of a single transaction
  hash is that hash: then \<open>initAuxPow\<close> succeeds, and \<open>check\<close> of the object it attaches
  against \<open>h\<close> returns success, for every chain id, when \<open>fStrictChainId\<close> is false.
\<close>

theorem initAuxPow_then_check_valid:
  fixes ops :: "'hdr header_ops"
  assumes hash: "GetHash ops (SetAuxpowVersion ops header0 True) = h"
    and len: "length h = 32"
    and nomagic: "search (rev h) pchMergedMiningHeader = length (rev h)"
    and notconst: "h \<noteq> replicate 32 40"
    and zflag: "v AND AUXPOW_ZHASH_FLAG x \<noteq> 0 \<Longrightarrow> v AND AUXPOW_EQUIHASH_FLAG x \<noteq> 0"
    and eflag: "v AND AUXPOW_EQUIHASH_FLAG x \<noteq> 0 \<Longrightarrow>
                  GetAlgo ops (SetAuxpowVersion ops header0 True) \<in> {ALGO_EQUIHASH, ALGO_ZHASH}"
    and pers: "v AND AUXPOW_ZHASH_FLAG x \<noteq> 0 \<Longrightarrow> length (strZhashPersonalize x) = 8"
    and single: "\<And>t. ComputeMerkleRoot x [t] = t"
    and ns: "\<not> fStrictChainId params"
  shows "initAuxPow_then_check x ops header0 v nChainId params = Inr Valid"
proof -
  from initAuxPow_minimal [OF hash zflag eflag pers single]
  obtain a where a: "initAuxPow x ops header0 v = Inr (SetAuxpowVersion ops header0 True, a)"
    and m: "minimal_auxpow x a h" by blast
  from check_minimal_auxpow [OF m len nomagic notconst ns]
  show ?thesis by (simp add: initAuxPow_then_check_def a hash)
qed

text \<open>
  The theorem on an Equihash header with the example hash and all three flags set
  (version 7), for chain id 1.
\<close>

theorem initAuxPow_then_check_valid_witness:
  "initAuxPow_then_check example_extern example_ops (ALGO_EQUIHASH, example_hash) 7 1
     \<lparr>fStrictChainId = False\<rparr> = Inr Valid"
proof (rule initAuxPow_then_check_valid [where h = example_hash])
  show "GetHash example_ops (SetAuxpowVersion example_ops (ALGO_EQUIHASH, example_hash) True)
          = example_hash"
    by (simp add: example_ops_def)
  show "length example_hash = 32" by (simp add: example_hash_def)
  show "search (rev example_hash) pchMergedMiningHeader = length (rev example_hash)"
    by code_simp
  show "example_hash \<noteq> replicate 32 40" by code_simp
  show "7 AND AUXPOW_EQUIHASH_FLAG example_extern \<noteq> 0" by (simp add: example_extern_def)
  show "GetAlgo example_ops (SetAuxpowVersion example_ops (ALGO_EQUIHASH, example_hash) True)
          \<in> {ALGO_EQUIHASH, ALGO_ZHASH}"
    by (simp add: example_ops_def)
  show "length (strZhashPersonalize example_extern) = 8" by (simp add: example_extern_def)
  show "ComputeMerkleRoot example_extern [t] = t" for t by (simp add: example_extern_def)
  show "\<not> fStrictChainId \<lparr>fStrictChainId = False\<rparr>" by simp
qed

text \<open>
  C1 as stated fails: for a header of another algorithm and the version with the Zhash
  flag alone, \<open>initAuxPow\<close> takes its last block, which leaves \<open>strZhashConfig\<close> empty,
  and \<open>check\<close> rejects the object with "Aux POW Zhash personalization string size has
  wrong size.", with \<open>fStrictChainId\<close> false.
\<close>

theorem initAuxPow_then_check_zhash_counterexample:
  "initAuxPow_then_check example_extern example_ops (ALGO_OTHER, example_hash) 2 1
     \<lparr>fStrictChainId = False\<rparr> = Inr (Invalid ZhashConfigWrongSize)"
  by code_simp

text \<open>
  The other hypotheses are needed too. With the Equihash flag on a header of another
  algorithm, or the Zhash flag alone on a Zhash header, \<open>check\<close> reads the parent
  header \<open>initAuxPow\<close> did not set; a hash that contains the merged-mining header sends
  \<open>check\<close> down the header path; a hash of 32 bytes 40 is found one byte early.
\<close>

lemma initAuxPow_then_check_equihash_flag_other_algo:
  "initAuxPow_then_check example_extern example_ops (ALGO_OTHER, example_hash) 1 1
     \<lparr>fStrictChainId = False\<rparr> = Inr (Invalid MerkleRootIncorrect)"
  by code_simp

lemma initAuxPow_then_check_zhash_flag_alone:
  "initAuxPow_then_check example_extern example_ops (ALGO_ZHASH, example_hash) 2 1
     \<lparr>fStrictChainId = False\<rparr> = Inr (Invalid MerkleRootIncorrect)"
  by code_simp

lemma initAuxPow_then_check_header_in_hash:
  "initAuxPow_then_check example_extern example_ops
     (ALGO_OTHER, [0x6D, 0x6D, 0xBE, 0xFA] @ replicate 28 0) 0 1
     \<lparr>fStrictChainId = False\<rparr> = Inr (Invalid HeaderNotJustBeforeRoot)"
  by code_simp

lemma initAuxPow_then_check_hash_of_opcodes:
  "initAuxPow_then_check example_extern example_ops (ALGO_OTHER, replicate 32 40) 0 1
     \<lparr>fStrictChainId = False\<rparr> = Inr (Invalid BranchSizeMismatch)"
  by code_simp

end
